theory Spec2Isabelle
  imports Complex_Main "HOL-Library.Sublist" "HOL-Library.Word"
begin

section \<open>Strings and numbers of the source\<close>









section \<open>Font metadata inference: \<open>parseFontStyle\<close> (local-font-access.ts)\<close>







section \<open>Font format detection: \<open>detectFontType\<close> (local-font-access.ts)\<close>

datatype FontType = TrueType | Type1

type_synonym byte = "8 word"

text \<open>
  The source also combines the first four bytes into \<open>signature\<close>, which it never reads;
  the result depends on the length and the first two bytes only.
\<close>

definition detectFontType :: "byte list \<Rightarrow> FontType" where
  "detectFontType data =
     (if length data < 4 then TrueType
      else if data ! 0 = 0x25 \<and> data ! 1 = 0x21 then Type1
      else TrueType)"

section \<open>Font directory: \<open>queryLocalFonts\<close> and \<open>loadFontData\<close> (local-font-access.ts)\<close>

text \<open>
  Thrown values: \<open>new Error(message)\<close> and the platform's \<open>DOMException\<close> with its name.
\<close>

datatype jsError = Error string | DOMException string string


























section \<open>Font plugin state: \<open>reducer\<close> (index.ts) and \<open>FontPlugin\<close> (font-plugin.ts)\<close>











section \<open>Annotations and the overlay compositor (pdf-export.ts)\<close>

text \<open>
  Source numbers are modelled as rationals; page indices as integers. The subtypes the
  compositor distinguishes are named, every other subtype is \<open>OTHER\<close>.
\<close>

datatype PdfAnnotationSubtype = FREETEXT | UNDERLINE | STRIKEOUT | SQUIGGLY | OTHER nat

text \<open>
  Modelled from the spec: the font reference type \<open>PdfFontRef\<close> and its guards
  \<open>isStandardFontRef\<close> and \<open>isCustomFontRef\<close> come from the models package, which is not
  among the sources. The specification gives the tagged union: a standard reference with
  an enumerated id, or a custom reference with a postscript name and display metadata.
  \<open>fontFamily\<close> of an annotation is \<open>None\<close> when the field is absent.
\<close>

datatype PdfFontRef =
    StandardFontRef nat
  | CustomFontRef (cf_postscriptName: string) (cf_fullName: string)

definition isStandardFontRef :: "PdfFontRef option \<Rightarrow> bool" where
  "isStandardFontRef r = (case r of Some (StandardFontRef n) \<Rightarrow> True | _ \<Rightarrow> False)"

definition isCustomFontRef :: "PdfFontRef option \<Rightarrow> bool" where
  "isCustomFontRef r = (case r of Some (CustomFontRef ps full) \<Rightarrow> True | _ \<Rightarrow> False)"

record Rect =
  origin_x :: rat
  origin_y :: rat
  size_width :: rat
  size_height :: rat

record PdfAnnotationObject =
  anno_id :: string
  pageIndex :: int
  anno_type :: PdfAnnotationSubtype
  rect :: Rect
  fontFamily :: "PdfFontRef option"
  fontColor :: "string option"
  fontSize :: rat
  contents :: "string option"
  backgroundColor :: "string option"
  opacity :: "rat option"
  segmentRects :: "Rect list option"
  color :: "string option"
  strokeWidth :: "rat option"

definition isFreeTextAnnotation :: "PdfAnnotationObject \<Rightarrow> bool" where
  "isFreeTextAnnotation anno = (anno_type anno = FREETEXT)"

definition isUnderlineAnnotation :: "PdfAnnotationObject \<Rightarrow> bool" where
  "isUnderlineAnnotation anno = (anno_type anno = UNDERLINE)"

definition isStrikeOutAnnotation :: "PdfAnnotationObject \<Rightarrow> bool" where
  "isStrikeOutAnnotation anno = (anno_type anno = STRIKEOUT)"

definition isSquigglyAnnotation :: "PdfAnnotationObject \<Rightarrow> bool" where
  "isSquigglyAnnotation anno = (anno_type anno = SQUIGGLY)"

definition isCustomRenderAnnotation :: "PdfAnnotationObject \<Rightarrow> bool" where
  "isCustomRenderAnnotation anno =
     (if isFreeTextAnnotation anno then isCustomFontRef (fontFamily anno)
      else if isUnderlineAnnotation anno then True
      else if isStrikeOutAnnotation anno then True
      else if isSquigglyAnnotation anno then True
      else False)"

definition getCustomRenderAnnotations :: "PdfAnnotationObject list \<Rightarrow> PdfAnnotationObject list" where
  "getCustomRenderAnnotations annotations = filter isCustomRenderAnnotation annotations"

text \<open>
  What the compositor asks the page to draw. A colour is kept as the hex text handed to
  \<open>parseHexColor\<close>; its conversion to components is not modelled. The SVG path is kept as
  its commands: \<open>M x y\<close>, the relative quadratic curve \<open>q dx1 dy1 dx dy\<close> and the
  relative smooth curve \<open>t dx dy\<close>. \<open>svg_fill = None\<close> is \<open>color: undefined\<close>.
\<close>

datatype PathCmd =
    MoveTo rat rat
  | QuadRel rat rat rat rat
  | SmoothRel rat rat

datatype DrawOp =
    DrawRectangle (op_x: rat) (op_y: rat) (op_width: rat) (op_height: rat)
                  (op_color: string) (op_opacity: rat)
  | DrawText (txt_line: string) (txt_x: rat) (txt_y: rat) (txt_size: rat) (txt_font: nat)
             (txt_color: string) (txt_opacity: rat)
  | DrawSvgPath (svg_path: "PathCmd list") (svg_x: rat) (svg_y: rat)
                (svg_borderColor: string) (svg_fill: "string option")
                (svg_borderOpacity: rat) (svg_borderWidth: rat)

text \<open>
  The document the overlay library holds: the bytes it was loaded from, the heights of its
  pages, the font binaries embedded so far and the drawing operations, each with the index
  of its page, oldest first.
\<close>

record PdfDoc =
  doc_base :: "byte list"
  doc_pages :: "rat list"
  doc_embedded :: "byte list list"
  doc_ops :: "(nat \<times> DrawOp) list"

text \<open>
  The overlay library, taken as given: \<open>PDFDocument.load\<close> yields the page heights or
  throws, \<open>embedFont\<close> yields a font handle or throws, \<open>save\<close> yields the final bytes or
  throws.
\<close>

record PdfLib =
  lib_load :: "byte list \<Rightarrow> jsError + rat list"
  lib_embedFont :: "byte list \<Rightarrow> jsError + nat"
  lib_save :: "PdfDoc \<Rightarrow> jsError + byte list"

type_synonym FontDataMap = "string \<rightharpoonup> byte list"

text \<open>
  The state of one run of the compositor: the document, the cache \<open>embeddedFonts\<close>, and
  the postscript names \<open>embedFont\<close> was called for, oldest first.
\<close>

record Compositor =
  comp_doc :: PdfDoc
  embeddedFonts :: "string \<rightharpoonup> nat"
  embedCalls :: "string list"

definition drawOn :: "nat \<Rightarrow> DrawOp \<Rightarrow> Compositor \<Rightarrow> Compositor" where
  "drawOn page d c = c\<lparr>comp_doc := (comp_doc c)\<lparr>doc_ops := doc_ops (comp_doc c) @ [(page, d)]\<rparr>\<rparr>"

text \<open>\<open>a || d\<close> on an optional string, \<open>a || 1\<close> on an optional number, \<open>a ?? 1\<close>.\<close>

definition orString :: "string option \<Rightarrow> string \<Rightarrow> string" where
  "orString a d = (case a of None \<Rightarrow> d | Some s \<Rightarrow> if s = [] then d else s)"

definition orOne :: "rat option \<Rightarrow> rat" where
  "orOne a = (case a of None \<Rightarrow> 1 | Some n \<Rightarrow> if n = 0 then 1 else n)"

definition nullishOne :: "rat option \<Rightarrow> rat" where
  "nullishOne a = (case a of None \<Rightarrow> 1 | Some n \<Rightarrow> n)"

text \<open>\<open>text.split('\n')\<close>.\<close>

fun splitLines :: "string \<Rightarrow> string list" where
  "splitLines [] = [[]]"
| "splitLines (c # cs) =
     (if c = CHR 0x0A then [] # splitLines cs
      else (case splitLines cs of l # ls \<Rightarrow> (c # l) # ls | [] \<Rightarrow> [[c]]))"

text \<open>The loop over the lines of a free text: \<open>currentY\<close> descends by the line height.\<close>

fun drawLines :: "nat \<Rightarrow> PdfAnnotationObject \<Rightarrow> nat \<Rightarrow> rat \<Rightarrow> rat \<Rightarrow> string list \<Rightarrow> Compositor \<Rightarrow> Compositor" where
  "drawLines page anno font x currentY [] c = c"
| "drawLines page anno font x currentY (line # lines) c =
     drawLines page anno font x (currentY - fontSize anno * (12 / 10)) lines
       (drawOn page
          (DrawText line (x + 4) currentY (fontSize anno) font
             (orString (fontColor anno) ''#000000'') (nullishOne (opacity anno))) c)"

text \<open>
  \<open>embeddedFonts.get\<close>, and on a miss the guarded call of \<open>embedFont\<close>: a handle is cached
  only when the call returns; when it throws the annotation is skipped and nothing is
  cached.
\<close>

definition getOrEmbed :: "PdfLib \<Rightarrow> string \<Rightarrow> byte list \<Rightarrow> Compositor \<Rightarrow> Compositor \<times> nat option" where
  "getOrEmbed lib ps fontData c =
     (case embeddedFonts c ps of
        Some font \<Rightarrow> (c, Some font)
      | None \<Rightarrow>
          (case lib_embedFont lib fontData of
             Inr font \<Rightarrow>
               (c\<lparr>comp_doc := (comp_doc c)\<lparr>doc_embedded := doc_embedded (comp_doc c) @ [fontData]\<rparr>,
                  embeddedFonts := (embeddedFonts c)(ps \<mapsto> font),
                  embedCalls := embedCalls c @ [ps]\<rparr>, Some font)
           | Inl error \<Rightarrow> (c\<lparr>embedCalls := embedCalls c @ [ps]\<rparr>, None)))"

definition drawFreeText :: "PdfLib \<Rightarrow> FontDataMap \<Rightarrow> nat \<Rightarrow> rat \<Rightarrow> PdfAnnotationObject \<Rightarrow> Compositor \<Rightarrow> Compositor" where
  "drawFreeText lib fontDataMap page pageHeight anno c =
     (if isStandardFontRef (fontFamily anno) then c
      else case fontFamily anno of
        Some (CustomFontRef ps full) \<Rightarrow>
          (case fontDataMap ps of
             None \<Rightarrow> c
           | Some fontData \<Rightarrow>
               (case getOrEmbed lib ps fontData c of
                  (c1, None) \<Rightarrow> c1
                | (c1, Some font) \<Rightarrow>
                    (let x = origin_x (rect anno);
                         y = pageHeight - origin_y (rect anno) - size_height (rect anno);
                         text = orString (contents anno) []
                     in if text = [] then c1
                        else (let c2 = (case backgroundColor anno of
                                          None \<Rightarrow> c1
                                        | Some bg \<Rightarrow>
                                            if bg \<noteq> [] \<and> bg \<noteq> ''transparent''
                                            then drawOn page
                                                   (DrawRectangle (origin_x (rect anno))
                                                      (pageHeight - origin_y (rect anno) - size_height (rect anno))
                                                      (size_width (rect anno)) (size_height (rect anno))
                                                      bg (nullishOne (opacity anno))) c1
                                            else c1)
                              in drawLines page anno font x
                                   (y + size_height (rect anno) - fontSize anno)
                                   (splitLines text) c2))))
      | _ \<Rightarrow> c)"

definition underlineOp :: "rat \<Rightarrow> PdfAnnotationObject \<Rightarrow> Rect \<Rightarrow> DrawOp" where
  "underlineOp pageHeight anno r =
     (let x = origin_x r;
          y = pageHeight - origin_y r - size_height r
      in DrawRectangle x y (size_width r) (orOne (strokeWidth anno))
           (orString (color anno) ''#FFFF00'') (nullishOne (opacity anno)))"

definition strikeOutOp :: "rat \<Rightarrow> PdfAnnotationObject \<Rightarrow> Rect \<Rightarrow> DrawOp" where
  "strikeOutOp pageHeight anno r =
     (let rectBottomY = pageHeight - origin_y r - size_height r;
          midY = rectBottomY + size_height r / 2;
          y = midY - orOne (strokeWidth anno) / 2;
          x = origin_x r
      in DrawRectangle x y (size_width r) (orOne (strokeWidth anno))
           (orString (color anno) ''#FFFF00'') (nullishOne (opacity anno)))"

text \<open>
  The wave of a squiggly segment. The source writes the path as text and puts a minus sign
  before the amplitude; the model negates the number, which is the same path for the
  positive amplitudes a stroke width gives.
\<close>

definition squigglyOp :: "rat \<Rightarrow> PdfAnnotationObject \<Rightarrow> Rect \<Rightarrow> DrawOp" where
  "squigglyOp pageHeight anno r =
     (let period = 6;
          amplitude = orOne (strokeWidth anno);
          width = size_width r;
          rectBottomY = pageHeight - origin_y r - size_height r;
          cycles = \<lceil>width / period\<rceil>;
          d = MoveTo 0 amplitude
              # concat (replicate (nat cycles)
                          [QuadRel (period / 4) (- amplitude) (period / 2) 0,
                           SmoothRel (period / 2) 0])
      in DrawSvgPath d (origin_x r) rectBottomY
           (orString (color anno) ''#FFFF00'') None
           (nullishOne (opacity anno)) (orOne (strokeWidth anno)))"

definition drawSegments :: "(Rect \<Rightarrow> DrawOp) \<Rightarrow> nat \<Rightarrow> PdfAnnotationObject \<Rightarrow> Compositor \<Rightarrow> Compositor" where
  "drawSegments mk page anno c =
     (case segmentRects anno of
        None \<Rightarrow> c
      | Some rs \<Rightarrow> if rs = [] then c else foldl (\<lambda>s r. drawOn page (mk r) s) c rs)"

text \<open>The body of the loop over the annotations.\<close>

definition processAnnotation :: "PdfLib \<Rightarrow> FontDataMap \<Rightarrow> Compositor \<Rightarrow> PdfAnnotationObject \<Rightarrow> Compositor" where
  "processAnnotation lib fontDataMap c anno =
     (let pages = doc_pages (comp_doc c)
      in if pageIndex anno < 0 \<or> pageIndex anno \<ge> int (length pages) then c
         else (let page = nat (pageIndex anno);
                   pageHeight = pages ! page
               in if isFreeTextAnnotation anno then drawFreeText lib fontDataMap page pageHeight anno c
                  else if isUnderlineAnnotation anno then drawSegments (underlineOp pageHeight anno) page anno c
                  else if isStrikeOutAnnotation anno then drawSegments (strikeOutOp pageHeight anno) page anno c
                  else if isSquigglyAnnotation anno then drawSegments (squigglyOp pageHeight anno) page anno c
                  else c))"

definition newCompositor :: "byte list \<Rightarrow> rat list \<Rightarrow> Compositor" where
  "newCompositor basePdfBytes pages =
     \<lparr>comp_doc = \<lparr>doc_base = basePdfBytes, doc_pages = pages, doc_embedded = [], doc_ops = []\<rparr>,
      embeddedFonts = Map.empty, embedCalls = []\<rparr>"

text \<open>Loading the base document and running the loop; \<open>Inl\<close> when loading throws.\<close>

definition compositeAnnotations :: "PdfLib \<Rightarrow> byte list \<Rightarrow> PdfAnnotationObject list \<Rightarrow> FontDataMap \<Rightarrow> jsError + Compositor" where
  "compositeAnnotations lib basePdfBytes annotations fontDataMap =
     (case lib_load lib basePdfBytes of
        Inl e \<Rightarrow> Inl e
      | Inr pages \<Rightarrow>
          Inr (foldl (processAnnotation lib fontDataMap) (newCompositor basePdfBytes pages) annotations))"

definition exportPdfWithCustomAnnotations :: "PdfLib \<Rightarrow> byte list \<Rightarrow> PdfAnnotationObject list \<Rightarrow> FontDataMap \<Rightarrow> jsError + byte list" where
  "exportPdfWithCustomAnnotations lib basePdfBytes annotations fontDataMap =
     (case compositeAnnotations lib basePdfBytes annotations fontDataMap of
        Inl e \<Rightarrow> Inl e
      | Inr c \<Rightarrow> lib_save lib (comp_doc c))"

section \<open>Export orchestration: \<open>handleExport\<close> (export-button.tsx)\<close>

text \<open>
  Modelled from the spec: the primary engine's \<open>deleteAnnotation(page, id)\<close> and
  \<open>importAnnotations(records)\<close> belong to the annotation plugin, which is not among the
  sources. Following the specification, deleting removes the record with that page and id
  from the live annotations and importing inserts the records.
\<close>

definition deleteAnnotation :: "int \<Rightarrow> string \<Rightarrow> PdfAnnotationObject list \<Rightarrow> PdfAnnotationObject list" where
  "deleteAnnotation page ident live = filter (\<lambda>a. \<not> (pageIndex a = page \<and> anno_id a = ident)) live"

definition importAnnotations :: "PdfAnnotationObject list \<Rightarrow> PdfAnnotationObject list \<Rightarrow> PdfAnnotationObject list" where
  "importAnnotations records live = live @ records"

text \<open>The calls \<open>handleExport\<close> makes on its collaborators, in order.\<close>

datatype Call =
    CallDeleteAnnotation int string
  | CallSaveAsCopy
  | CallComposite
  | CallImportAnnotations string

text \<open>
  What one export can see and change: the live annotations of the primary engine (the
  objects of \<open>state.byUid\<close>, every tracked entry carrying its object), the
  \<open>isExporting\<close> flag, the values given to \<open>console.error\<close>, the byte blobs handed to
  the download link, and the calls made. The fixed wait after the deletions is not
  modelled: a deletion has taken effect when the base export starts.
\<close>

record App =
  annotations :: "PdfAnnotationObject list"
  isExporting :: bool
  consoleErrors :: "jsError list"
  downloads :: "byte list list"
  calls :: "Call list"

text \<open>
  The collaborators of one export: whether both capabilities are provided, what
  \<open>saveAsCopy\<close> settles with for given live annotations, the overlay library, and the
  content of the font data store.
\<close>

record Env =
  capabilitiesAvailable :: bool
  saveAsCopy :: "PdfAnnotationObject list \<Rightarrow> jsError + byte list"
  pdfLib :: PdfLib
  fontDataStore :: FontDataMap

definition removeAnnotations :: "PdfAnnotationObject list \<Rightarrow> App \<Rightarrow> App" where
  "removeAnnotations custom app =
     foldl (\<lambda>s anno. s\<lparr>annotations := deleteAnnotation (pageIndex anno) (anno_id anno) (annotations s),
                       calls := calls s @ [CallDeleteAnnotation (pageIndex anno) (anno_id anno)]\<rparr>)
           app custom"

definition reimportAnnotations :: "PdfAnnotationObject list \<Rightarrow> App \<Rightarrow> App" where
  "reimportAnnotations custom app =
     foldl (\<lambda>s anno. s\<lparr>annotations := importAnnotations [anno] (annotations s),
                       calls := calls s @ [CallImportAnnotations (anno_id anno)]\<rparr>)
           app custom"

definition download :: "byte list \<Rightarrow> App \<Rightarrow> App" where
  "download finalPdfBytes app = app\<lparr>downloads := downloads app @ [finalPdfBytes]\<rparr>"

text \<open>
  The \<open>try\<close> block. It returns the application as the block left it and \<open>Inl\<close> of the
  thrown value when a step throws. The classifier and the compositor are parameters: the
  two export buttons differ only in them.
\<close>

definition exportTry ::
  "(PdfAnnotationObject \<Rightarrow> bool) \<Rightarrow>
   (PdfLib \<Rightarrow> byte list \<Rightarrow> PdfAnnotationObject list \<Rightarrow> FontDataMap \<Rightarrow> jsError + byte list) \<Rightarrow>
   Env \<Rightarrow> App \<Rightarrow> App \<times> (jsError + unit)" where
  "exportTry isCustom composite env app =
     (let allAnnotations = annotations app;
          customRenderAnnotations = filter isCustom allAnnotations;
          hasCustomRendering = (length customRenderAnnotations > 0);
          app1 = (if hasCustomRendering then removeAnnotations customRenderAnnotations app else app);
          app2 = app1\<lparr>calls := calls app1 @ [CallSaveAsCopy]\<rparr>
      in case saveAsCopy env (annotations app2) of
           Inl e \<Rightarrow> (app2, Inl e)
         | Inr basePdfBytes \<Rightarrow>
             if hasCustomRendering
             then (let app3 = app2\<lparr>calls := calls app2 @ [CallComposite]\<rparr>
                   in case composite (pdfLib env) basePdfBytes customRenderAnnotations (fontDataStore env) of
                        Inl e \<Rightarrow> (app3, Inl e)
                      | Inr finalPdfBytes \<Rightarrow>
                          (download finalPdfBytes (reimportAnnotations customRenderAnnotations app3), Inr ()))
             else (download basePdfBytes app2, Inr ()))"

text \<open>
  The whole handler with its \<open>catch\<close> and \<open>finally\<close>. The second component is how the
  returned promise settles: \<open>None\<close> when it resolves, \<open>Some e\<close> when it rejects with \<open>e\<close>.
\<close>

definition handleExportWith ::
  "(PdfAnnotationObject \<Rightarrow> bool) \<Rightarrow>
   (PdfLib \<Rightarrow> byte list \<Rightarrow> PdfAnnotationObject list \<Rightarrow> FontDataMap \<Rightarrow> jsError + byte list) \<Rightarrow>
   Env \<Rightarrow> App \<Rightarrow> App \<times> jsError option" where
  "handleExportWith isCustom composite env app =
     (if \<not> capabilitiesAvailable env
      then (app\<lparr>consoleErrors := consoleErrors app @ [Error ''Export or annotation capability not available'']\<rparr>,
            None)
      else (let (app1, r) = exportTry isCustom composite env (app\<lparr>isExporting := True\<rparr>);
                app2 = (case r of
                          Inl error \<Rightarrow> app1\<lparr>consoleErrors := consoleErrors app1 @ [error]\<rparr>
                        | Inr u \<Rightarrow> app1)
            in (app2\<lparr>isExporting := False\<rparr>, None)))"

text \<open>The export button of the nextjs example.\<close>

definition handleExport :: "Env \<Rightarrow> App \<Rightarrow> App \<times> jsError option" where
  "handleExport = handleExportWith isCustomRenderAnnotation exportPdfWithCustomAnnotations"

text \<open>
  The export button of the react example classifies by \<open>fontRef.type === 'custom'\<close> and
  calls \<open>exportPdfWithCustomFonts\<close>, which stays a parameter here.
\<close>

definition handleExportReact ::
  "(PdfLib \<Rightarrow> byte list \<Rightarrow> PdfAnnotationObject list \<Rightarrow> FontDataMap \<Rightarrow> jsError + byte list) \<Rightarrow>
   Env \<Rightarrow> App \<Rightarrow> App \<times> jsError option" where
  "handleExportReact exportPdfWithCustomFonts =
     handleExportWith (\<lambda>anno. isCustomFontRef (fontFamily anno)) exportPdfWithCustomFonts"

text \<open>Sample data: annotations, an overlay library that accepts everything, an application.\<close>

definition sampleAnno :: "string \<Rightarrow> PdfAnnotationSubtype \<Rightarrow> PdfAnnotationObject" where
  "sampleAnno ident ty =
     \<lparr>anno_id = ident, pageIndex = 0, anno_type = ty,
      rect = \<lparr>origin_x = 10, origin_y = 20, size_width = 100, size_height = 4\<rparr>,
      fontFamily = None, fontColor = None, fontSize = 12, contents = None,
      backgroundColor = None, opacity = None,
      segmentRects = Some [\<lparr>origin_x = 10, origin_y = 20, size_width = 100, size_height = 4\<rparr>],
      color = None, strokeWidth = Some 2\<rparr>"

definition sampleFreeText :: "string \<Rightarrow> string \<Rightarrow> PdfAnnotationObject" where
  "sampleFreeText ident ps =
     (sampleAnno ident FREETEXT)\<lparr>fontFamily := Some (CustomFontRef ps ps), contents := Some ''Hello'',
                                 segmentRects := None\<rparr>"

definition sampleLib :: PdfLib where
  "sampleLib =
     \<lparr>lib_load = (\<lambda>b. Inr [800]),
      lib_embedFont = (\<lambda>d. if d = [] then Inl (Error ''Unknown font format'') else Inr (length d)),
      lib_save = (\<lambda>d. Inr (doc_base d @ [of_nat (length (doc_ops d))]))\<rparr>"

definition sampleApp :: "PdfAnnotationObject list \<Rightarrow> App" where
  "sampleApp live =
     \<lparr>annotations = live, isExporting = False, consoleErrors = [], downloads = [], calls = []\<rparr>"

definition sampleEnv :: "(jsError + byte list) \<Rightarrow> PdfLib \<Rightarrow> Env" where
  "sampleEnv base lib =
     \<lparr>capabilitiesAvailable = True, saveAsCopy = (\<lambda>live. base), pdfLib = lib,
      fontDataStore = Map.empty\<rparr>"



text \<open>An overlay library whose \<open>PDFDocument.load\<close> throws.\<close>

definition failingLoadLib :: PdfLib where
  "failingLoadLib = sampleLib\<lparr>lib_load := (\<lambda>b. Inl (Error ''Failed to parse PDF document''))\<rparr>"






section \<open>Verified properties\<close>

subsection \<open>Font format detection\<close>

text \<open>
  Claim C7, as the code has it. \<open>detectFontType\<close> answers \<open>Type1\<close> exactly when the buffer
  holds at least four bytes and its first two bytes are \<open>0x25 0x21\<close>; every other buffer,
  in particular every buffer shorter than four bytes, is reported as TrueType/OpenType.
\<close>

theorem detectFontType_signature:
  "detectFontType data =
     (if 4 \<le> length data \<and> take 2 data = [0x25, 0x21] then Type1 else TrueType)"
proof (cases "length data < 4")
  case True
  then show ?thesis by (simp add: detectFontType_def)
next
  case False
  then obtain a b rest where d: "data = a # b # rest"
    by (cases data; cases "tl data") auto
  show ?thesis using False by (simp add: detectFontType_def d)
qed

text \<open>
  Claim C7 as stated fails on the two-byte buffer \<open>%!\<close>: its first two bytes are
  \<open>0x25 0x21\<close>, yet the length guard answers TrueType before the signature is read.
\<close>

theorem detectFontType_short_counterexample:
  "take 2 [0x25, 0x21 :: byte] = [0x25, 0x21] \<and> detectFontType [0x25, 0x21] \<noteq> Type1"
  by (simp add: detectFontType_def)

subsection \<open>Weight and style inference\<close>







subsection \<open>Discovery and disambiguation of duplicate names\<close>



























subsection \<open>Loading a font by its exposed name\<close>











subsection \<open>Markup geometry\<close>

lemmas markup_defs =
  processAnnotation_def newCompositor_def sampleAnno_def drawSegments_def drawOn_def
  isFreeTextAnnotation_def isUnderlineAnnotation_def isStrikeOutAnnotation_def
  isSquigglyAnnotation_def underlineOp_def strikeOutOp_def squigglyOp_def
  orOne_def orString_def nullishOne_def Let_def

lemma ceiling_100_6: "\<lceil>(100 :: rat) / 6\<rceil> = 17"
  by (rule ceiling_unique) simp_all

lemma ceiling_50_3: "\<lceil>(50 :: rat) / 3\<rceil> = 17"
  by (rule ceiling_unique) simp_all

text \<open>
  Claim C9. For a segment with origin (10, 20) and size (100, 4) on a page of height 800
  and stroke width 2, the loop body draws: for an underline one filled rectangle at
  \<open>x = 10\<close>, \<open>y = 776\<close> of width 100 and height 2; for a strikeout one filled rectangle
  at \<open>y = 777\<close> of height 2, whose middle is the segment's mid-height 778; for a squiggly
  one path with no fill and border width 2 that starts at height 2 and repeats 17 times,
  \<open>\<lceil>100 / 6\<rceil>\<close>, a cycle of two curves that advance 3 each (period 6) with control
  offset \<open>-2\<close> (amplitude 2).
\<close>

theorem markup_geometry_example:
  "doc_ops (comp_doc (processAnnotation lib fm (newCompositor base [800]) (sampleAnno ''u'' UNDERLINE)))
     = [(0, DrawRectangle 10 776 100 2 ''#FFFF00'' 1)]
   \<and> doc_ops (comp_doc (processAnnotation lib fm (newCompositor base [800]) (sampleAnno ''s'' STRIKEOUT)))
     = [(0, DrawRectangle 10 777 100 2 ''#FFFF00'' 1)]
   \<and> (777 :: rat) + 2 / 2 = 800 - 20 - 4 + 4 / 2 \<and> (800 :: rat) - 20 - 4 + 4 / 2 = 778
   \<and> doc_ops (comp_doc (processAnnotation lib fm (newCompositor base [800]) (sampleAnno ''q'' SQUIGGLY)))
     = [(0, DrawSvgPath (MoveTo 0 2 # concat (replicate 17 [QuadRel (6 / 4) (- 2) (6 / 2) 0, SmoothRel (6 / 2) 0]))
              10 776 ''#FFFF00'' None 1 2)]
   \<and> \<lceil>(100 :: rat) / 6\<rceil> = 17"
  by (simp add: markup_defs ceiling_50_3)

subsection \<open>Loading through the plugin\<close>



subsection \<open>Export orchestration\<close>

lemma removeAnnotations_update_isExporting:
  "removeAnnotations cs (app\<lparr>isExporting := b\<rparr>) = (removeAnnotations cs app)\<lparr>isExporting := b\<rparr>"
  unfolding removeAnnotations_def
  by (induction cs rule: rev_induct) simp_all

lemma removeAnnotations_fields:
  "isExporting (removeAnnotations cs app) = isExporting app"
  "consoleErrors (removeAnnotations cs app) = consoleErrors app"
  "downloads (removeAnnotations cs app) = downloads app"
  "calls (removeAnnotations cs app)
     = calls app @ map (\<lambda>c. CallDeleteAnnotation (pageIndex c) (anno_id c)) cs"
  unfolding removeAnnotations_def
  by (induction cs rule: rev_induct; simp)+

lemma removeAnnotations_annotations:
  "annotations (removeAnnotations cs app)
     = filter (\<lambda>a. \<forall>c \<in> set cs. \<not> (pageIndex a = pageIndex c \<and> anno_id a = anno_id c)) (annotations app)"
  unfolding removeAnnotations_def
  by (induction cs rule: rev_induct) (auto simp: deleteAnnotation_def intro: filter_cong)

lemma reimportAnnotations_fields:
  "isExporting (reimportAnnotations cs app) = isExporting app"
  "consoleErrors (reimportAnnotations cs app) = consoleErrors app"
  "downloads (reimportAnnotations cs app) = downloads app"
  "calls (reimportAnnotations cs app) = calls app @ map (\<lambda>c. CallImportAnnotations (anno_id c)) cs"
  "annotations (reimportAnnotations cs app) = annotations app @ cs"
  unfolding reimportAnnotations_def
  by (induction cs rule: rev_induct; simp add: importAnnotations_def)+

text \<open>
  Claim C3. When both capabilities are provided and no live annotation is classified for
  custom rendering, the export deletes nothing and leaves the live annotations as they
  were, its only call on a collaborator is \<open>saveAsCopy\<close> (so the compositor is not
  invoked), and when the base export yields bytes, exactly these bytes are handed to the
  download; when it throws nothing is handed over.
\<close>

theorem handleExport_without_custom_render:
  "capabilitiesAvailable env \<and> filter isCustomRenderAnnotation (annotations app) = [] \<longrightarrow>
     annotations (fst (handleExport env app)) = annotations app
     \<and> calls (fst (handleExport env app)) = calls app @ [CallSaveAsCopy]
     \<and> (\<forall>b. saveAsCopy env (annotations app) = Inr b \<longrightarrow>
            downloads (fst (handleExport env app)) = downloads app @ [b])
     \<and> (\<forall>e. saveAsCopy env (annotations app) = Inl e \<longrightarrow>
            downloads (fst (handleExport env app)) = downloads app)"
  by (cases "saveAsCopy env (annotations app)")
     (simp_all add: handleExport_def handleExportWith_def exportTry_def download_def Let_def)

theorem handleExport_without_custom_render_witness:
  "(capabilitiesAvailable (sampleEnv (Inr [1, 2, 3]) sampleLib)
     \<and> filter isCustomRenderAnnotation (annotations (sampleApp [sampleAnno ''st'' (OTHER 13)])) = [])
   \<and> saveAsCopy (sampleEnv (Inr [1, 2, 3]) sampleLib) (annotations (sampleApp [sampleAnno ''st'' (OTHER 13)]))
       = Inr [1, 2, 3]
   \<and> annotations (fst (handleExport (sampleEnv (Inr [1, 2, 3]) sampleLib) (sampleApp [sampleAnno ''st'' (OTHER 13)])))
       = [sampleAnno ''st'' (OTHER 13)]
   \<and> calls (fst (handleExport (sampleEnv (Inr [1, 2, 3]) sampleLib) (sampleApp [sampleAnno ''st'' (OTHER 13)])))
       = [CallSaveAsCopy]
   \<and> downloads (fst (handleExport (sampleEnv (Inr [1, 2, 3]) sampleLib) (sampleApp [sampleAnno ''st'' (OTHER 13)])))
       = [[1, 2, 3]]"
proof -
  define env where "env = sampleEnv (Inr [1, 2, 3]) sampleLib"
  define app where "app = sampleApp [sampleAnno ''st'' (OTHER 13)]"
  have h: "capabilitiesAvailable env \<and> filter isCustomRenderAnnotation (annotations app) = []"
    unfolding env_def app_def by code_simp
  have b: "saveAsCopy env (annotations app) = Inr [1, 2, 3]"
    unfolding env_def by (simp add: sampleEnv_def)
  have a0: "annotations app = [sampleAnno ''st'' (OTHER 13)]" "calls app = []" "downloads app = []"
    unfolding app_def by (simp_all add: sampleApp_def)
  note t = handleExport_without_custom_render [of env app, THEN mp, OF h]
  have c1: "annotations (fst (handleExport env app)) = [sampleAnno ''st'' (OTHER 13)]"
    using t [THEN conjunct1] unfolding a0 .
  have c2: "calls (fst (handleExport env app)) = [CallSaveAsCopy]"
    using t [THEN conjunct2, THEN conjunct1] unfolding a0 by simp
  have c3: "downloads (fst (handleExport env app)) = [[1, 2, 3]]"
    using t [THEN conjunct2, THEN conjunct2, THEN conjunct1, rule_format, OF b] unfolding a0 by simp
  show ?thesis
    using h b c1 c2 c3 unfolding env_def app_def
    by (intro conjI) (elim conjE, assumption)+
qed

lemma exportTry_failure:
  assumes "saveAsCopy env (annotations (removeAnnotations (filter isCustom (annotations app)) app)) = Inl e
           \<or> (\<exists>b. saveAsCopy env (annotations (removeAnnotations (filter isCustom (annotations app)) app)) = Inr b
                   \<and> composite (pdfLib env) b (filter isCustom (annotations app)) (fontDataStore env) = Inl e)"
      and "filter isCustom (annotations app) \<noteq> []"
  shows "\<exists>app1. exportTry isCustom composite env (app\<lparr>isExporting := True\<rparr>) = (app1, Inl e)
           \<and> consoleErrors app1 = consoleErrors app \<and> downloads app1 = downloads app"
  using assms
  by (auto simp: exportTry_def Let_def removeAnnotations_update_isExporting removeAnnotations_fields)

text \<open>
  Claim C2, as the code has it. When annotations were removed and then the base export
  throws \<open>e\<close>, or the base export succeeds and the compositor throws \<open>e\<close>, the handler
  catches \<open>e\<close>: its promise resolves, \<open>e\<close> is given to \<open>console.error\<close>, the
  \<open>isExporting\<close> flag is cleared and nothing is handed to the download.
\<close>

theorem handleExport_failure_is_caught:
  "capabilitiesAvailable env
   \<and> filter isCustomRenderAnnotation (annotations app) \<noteq> []
   \<and> (saveAsCopy env (annotations (removeAnnotations (filter isCustomRenderAnnotation (annotations app)) app)) = Inl e
      \<or> (\<exists>b. saveAsCopy env (annotations (removeAnnotations (filter isCustomRenderAnnotation (annotations app)) app)) = Inr b
              \<and> exportPdfWithCustomAnnotations (pdfLib env) b
                   (filter isCustomRenderAnnotation (annotations app)) (fontDataStore env) = Inl e))
   \<longrightarrow> snd (handleExport env app) = None
       \<and> consoleErrors (fst (handleExport env app)) = consoleErrors app @ [e]
       \<and> isExporting (fst (handleExport env app)) = False
       \<and> downloads (fst (handleExport env app)) = downloads app"
proof
  assume a: "capabilitiesAvailable env
   \<and> filter isCustomRenderAnnotation (annotations app) \<noteq> []
   \<and> (saveAsCopy env (annotations (removeAnnotations (filter isCustomRenderAnnotation (annotations app)) app)) = Inl e
      \<or> (\<exists>b. saveAsCopy env (annotations (removeAnnotations (filter isCustomRenderAnnotation (annotations app)) app)) = Inr b
              \<and> exportPdfWithCustomAnnotations (pdfLib env) b
                   (filter isCustomRenderAnnotation (annotations app)) (fontDataStore env) = Inl e))"
  from exportTry_failure [of env isCustomRenderAnnotation app e exportPdfWithCustomAnnotations] a
  obtain app1 where t: "exportTry isCustomRenderAnnotation exportPdfWithCustomAnnotations env
                          (app\<lparr>isExporting := True\<rparr>) = (app1, Inl e)"
      and f: "consoleErrors app1 = consoleErrors app" "downloads app1 = downloads app"
    by blast
  from a have c: "capabilitiesAvailable env" by simp
  show "snd (handleExport env app) = None
       \<and> consoleErrors (fst (handleExport env app)) = consoleErrors app @ [e]
       \<and> isExporting (fst (handleExport env app)) = False
       \<and> downloads (fst (handleExport env app)) = downloads app"
    using c f by (simp add: handleExport_def handleExportWith_def t)
qed

theorem handleExport_failure_is_caught_witness:
  "(capabilitiesAvailable (sampleEnv (Inl (Error ''save failed'')) sampleLib)
    \<and> filter isCustomRenderAnnotation (annotations (sampleApp [sampleAnno ''u1'' UNDERLINE])) \<noteq> []
    \<and> saveAsCopy (sampleEnv (Inl (Error ''save failed'')) sampleLib)
         (annotations (removeAnnotations
            (filter isCustomRenderAnnotation (annotations (sampleApp [sampleAnno ''u1'' UNDERLINE])))
            (sampleApp [sampleAnno ''u1'' UNDERLINE])))
       = Inl (Error ''save failed''))
   \<and> snd (handleExport (sampleEnv (Inl (Error ''save failed'')) sampleLib)
                        (sampleApp [sampleAnno ''u1'' UNDERLINE])) = None
   \<and> consoleErrors (fst (handleExport (sampleEnv (Inl (Error ''save failed'')) sampleLib)
                        (sampleApp [sampleAnno ''u1'' UNDERLINE]))) = [Error ''save failed'']
   \<and> isExporting (fst (handleExport (sampleEnv (Inl (Error ''save failed'')) sampleLib)
                        (sampleApp [sampleAnno ''u1'' UNDERLINE]))) = False
   \<and> downloads (fst (handleExport (sampleEnv (Inl (Error ''save failed'')) sampleLib)
                        (sampleApp [sampleAnno ''u1'' UNDERLINE]))) = []"
proof -
  define env where "env = sampleEnv (Inl (Error ''save failed'')) sampleLib"
  define app where "app = sampleApp [sampleAnno ''u1'' UNDERLINE]"
  have h: "capabilitiesAvailable env
    \<and> filter isCustomRenderAnnotation (annotations app) \<noteq> []
    \<and> saveAsCopy env (annotations (removeAnnotations
            (filter isCustomRenderAnnotation (annotations app)) app))
       = Inl (Error ''save failed'')"
    unfolding env_def app_def by code_simp
  then have h': "capabilitiesAvailable env
   \<and> filter isCustomRenderAnnotation (annotations app) \<noteq> []
   \<and> (saveAsCopy env (annotations (removeAnnotations (filter isCustomRenderAnnotation (annotations app)) app))
         = Inl (Error ''save failed'')
      \<or> (\<exists>b. saveAsCopy env (annotations (removeAnnotations (filter isCustomRenderAnnotation (annotations app)) app)) = Inr b
              \<and> exportPdfWithCustomAnnotations (pdfLib env) b
                   (filter isCustomRenderAnnotation (annotations app)) (fontDataStore env)
                 = Inl (Error ''save failed'')))"
    by blast
  have a0: "consoleErrors app = []" "downloads app = []"
    unfolding app_def by (simp_all add: sampleApp_def)
  note t = handleExport_failure_is_caught [of env app "Error ''save failed''", THEN mp, OF h']
  have c1: "snd (handleExport env app) = None" by (rule t [THEN conjunct1])
  have c2: "consoleErrors (fst (handleExport env app)) = [Error ''save failed'']"
    using t [THEN conjunct2, THEN conjunct1] unfolding a0 by simp
  have c3: "isExporting (fst (handleExport env app)) = False"
    by (rule t [THEN conjunct2, THEN conjunct2, THEN conjunct1])
  have c4: "downloads (fst (handleExport env app)) = []"
    using t [THEN conjunct2, THEN conjunct2, THEN conjunct2] unfolding a0 .
  show ?thesis
    by (rule conjI [OF h conjI [OF c1 conjI [OF c2 conjI [OF c3 c4]]], unfolded env_def app_def])
qed

text \<open>
  Claim C2 as stated fails: with one underline annotation and a base export that throws,
  and likewise with a compositor that throws, the handler does not reject with the error,
  and its calls end with the failing step, with no import after it.
\<close>

theorem handleExport_swallows_error_counterexample:
  "snd (handleExport (sampleEnv (Inl (Error ''save failed'')) sampleLib)
                     (sampleApp [sampleAnno ''u1'' UNDERLINE])) \<noteq> Some (Error ''save failed'')
   \<and> calls (fst (handleExport (sampleEnv (Inl (Error ''save failed'')) sampleLib)
                               (sampleApp [sampleAnno ''u1'' UNDERLINE])))
       = [CallDeleteAnnotation 0 ''u1'', CallSaveAsCopy]
   \<and> snd (handleExport (sampleEnv (Inr [1]) failingLoadLib)
                       (sampleApp [sampleAnno ''u1'' UNDERLINE]))
       \<noteq> Some (Error ''Failed to parse PDF document'')
   \<and> calls (fst (handleExport (sampleEnv (Inr [1]) failingLoadLib)
                               (sampleApp [sampleAnno ''u1'' UNDERLINE])))
       = [CallDeleteAnnotation 0 ''u1'', CallSaveAsCopy, CallComposite]"
  by code_simp

lemma handleExport_nextjs_failure_example:
  "map anno_id (annotations (sampleApp [sampleAnno ''u1'' UNDERLINE, sampleAnno ''st'' (OTHER 13)]))
     = [''u1'', ''st'']
   \<and> map anno_id (annotations (fst (handleExport (sampleEnv (Inl (Error ''save failed'')) sampleLib)
        (sampleApp [sampleAnno ''u1'' UNDERLINE, sampleAnno ''st'' (OTHER 13)]))))
     = [''st'']
   \<and> map anno_id (annotations (fst (handleExport (sampleEnv (Inr [1]) failingLoadLib)
        (sampleApp [sampleAnno ''u1'' UNDERLINE, sampleAnno ''st'' (OTHER 13)]))))
     = [''st'']
   \<and> map anno_id (annotations (fst (handleExport (sampleEnv (Inr [1]) sampleLib)
        (sampleApp [sampleAnno ''u1'' UNDERLINE, sampleAnno ''st'' (OTHER 13)]))))
     = [''st'', ''u1'']"
  by code_simp

lemma handleExport_react_failure_example:
  "map anno_id (annotations (fst (handleExportReact exportPdfWithCustomFonts
        (sampleEnv (Inl (Error ''save failed'')) sampleLib)
        (sampleApp [sampleFreeText ''t1'' ''Good'', sampleAnno ''st'' (OTHER 13)]))))
     = [''st'']"
  by (simp add: handleExportReact_def handleExportWith_def exportTry_def removeAnnotations_def
        deleteAnnotation_def sampleEnv_def sampleApp_def sampleFreeText_def sampleAnno_def
        isCustomFontRef_def Let_def)

text \<open>
  Claim C1 at the failing input. The live annotations are an underline \<open>u1\<close> and a
  stamp \<open>st\<close>. When the base export throws, and when the compositor throws, the export
  settles with \<open>u1\<close> still deleted; only when both steps succeed is \<open>u1\<close> imported
  again. The export button of the react example loses its custom-font free text \<open>t1\<close>
  in the same way, whatever its compositor does.
\<close>

theorem handleExport_failure_leaves_annotations_deleted:
  "map anno_id (annotations (sampleApp [sampleAnno ''u1'' UNDERLINE, sampleAnno ''st'' (OTHER 13)]))
     = [''u1'', ''st'']
   \<and> map anno_id (annotations (fst (handleExport (sampleEnv (Inl (Error ''save failed'')) sampleLib)
        (sampleApp [sampleAnno ''u1'' UNDERLINE, sampleAnno ''st'' (OTHER 13)]))))
     = [''st'']
   \<and> map anno_id (annotations (fst (handleExport (sampleEnv (Inr [1]) failingLoadLib)
        (sampleApp [sampleAnno ''u1'' UNDERLINE, sampleAnno ''st'' (OTHER 13)]))))
     = [''st'']
   \<and> map anno_id (annotations (fst (handleExport (sampleEnv (Inr [1]) sampleLib)
        (sampleApp [sampleAnno ''u1'' UNDERLINE, sampleAnno ''st'' (OTHER 13)]))))
     = [''st'', ''u1'']
   \<and> map anno_id (annotations (fst (handleExportReact exportPdfWithCustomFonts
        (sampleEnv (Inl (Error ''save failed'')) sampleLib)
        (sampleApp [sampleFreeText ''t1'' ''Good'', sampleAnno ''st'' (OTHER 13)]))))
     = [''st'']"
  using handleExport_nextjs_failure_example handleExport_react_failure_example [of exportPdfWithCustomFonts]
  by (elim conjE, intro conjI)

lemma same_id_same_annotation:
  assumes "distinct (map anno_id xs)" "a \<in> set xs" "c \<in> set xs" "anno_id a = anno_id c"
  shows "a = c"
  using assms by (meson distinct_map inj_onD)

text \<open>
  When the \<open>try\<close> block completes, the ids of the live annotations are the ones before
  the call (ids being unique): the sibling path that does restore what was removed.
\<close>

lemma exportTry_success_restores_ids:
  assumes d: "distinct (map anno_id (annotations app))"
      and s: "exportTry isCustom composite env app = (app', Inr u)"
  shows "set (map anno_id (annotations app')) = set (map anno_id (annotations app))"
proof (cases "filter isCustom (annotations app) = []")
  case True
  with s show ?thesis
    by (auto simp: exportTry_def Let_def download_def split: sum.splits)
next
  case False
  let ?cs = "filter isCustom (annotations app)"
  have keep: "filter (\<lambda>a. \<forall>c \<in> set ?cs. \<not> (pageIndex a = pageIndex c \<and> anno_id a = anno_id c)) (annotations app)
              = filter (\<lambda>a. \<not> isCustom a) (annotations app)"
  proof (rule filter_cong [OF refl])
    fix a assume a: "a \<in> set (annotations app)"
    show "(\<forall>c \<in> set ?cs. \<not> (pageIndex a = pageIndex c \<and> anno_id a = anno_id c)) = (\<not> isCustom a)"
    proof
      assume l: "\<forall>c \<in> set ?cs. \<not> (pageIndex a = pageIndex c \<and> anno_id a = anno_id c)"
      show "\<not> isCustom a"
      proof
        assume "isCustom a"
        with a have "a \<in> set ?cs" by simp
        with l show False by blast
      qed
    next
      assume n: "\<not> isCustom a"
      show "\<forall>c \<in> set ?cs. \<not> (pageIndex a = pageIndex c \<and> anno_id a = anno_id c)"
      proof (intro ballI notI)
        fix c assume c: "c \<in> set ?cs" and e: "pageIndex a = pageIndex c \<and> anno_id a = anno_id c"
        from c have "c \<in> set (annotations app)" "isCustom c" by simp_all
        with same_id_same_annotation [OF d a] e have "a = c" by blast
        with n \<open>isCustom c\<close> show False by simp
      qed
    qed
  qed
  from s False have "annotations app' = annotations (removeAnnotations ?cs app) @ ?cs"
    by (auto simp: exportTry_def Let_def download_def reimportAnnotations_fields split: sum.splits)
  then have "annotations app' = filter (\<lambda>a. \<not> isCustom a) (annotations app) @ ?cs"
    by (simp only: removeAnnotations_annotations keep)
  then show ?thesis by auto
qed

subsection \<open>Font embedding in the compositor\<close>

lemma drawOn_core [simp]:
  "embeddedFonts (drawOn page d c) = embeddedFonts c"
  "embedCalls (drawOn page d c) = embedCalls c"
  "doc_pages (comp_doc (drawOn page d c)) = doc_pages (comp_doc c)"
  by (simp_all add: drawOn_def)

lemma drawLines_core [simp]:
  "embeddedFonts (drawLines page anno font x y ls c) = embeddedFonts c"
  "embedCalls (drawLines page anno font x y ls c) = embedCalls c"
  "doc_pages (comp_doc (drawLines page anno font x y ls c)) = doc_pages (comp_doc c)"
  by (induction ls arbitrary: y c; simp)+

lemma drawSegments_core [simp]:
  "embeddedFonts (drawSegments mk page anno c) = embeddedFonts c"
  "embedCalls (drawSegments mk page anno c) = embedCalls c"
  "doc_pages (comp_doc (drawSegments mk page anno c)) = doc_pages (comp_doc c)"
proof -
  have "embeddedFonts (foldl (\<lambda>s r. drawOn page (mk r) s) c rs) = embeddedFonts c
      \<and> embedCalls (foldl (\<lambda>s r. drawOn page (mk r) s) c rs) = embedCalls c
      \<and> doc_pages (comp_doc (foldl (\<lambda>s r. drawOn page (mk r) s) c rs)) = doc_pages (comp_doc c)" for rs
    by (induction rs rule: rev_induct) simp_all
  then show
    "embeddedFonts (drawSegments mk page anno c) = embeddedFonts c"
    "embedCalls (drawSegments mk page anno c) = embedCalls c"
    "doc_pages (comp_doc (drawSegments mk page anno c)) = doc_pages (comp_doc c)"
    by (simp_all add: drawSegments_def split: option.splits)
qed

lemma getOrEmbed_core:
  "embeddedFonts (fst (getOrEmbed lib ps d c))
     = (case embeddedFonts c ps of
          Some h \<Rightarrow> embeddedFonts c
        | None \<Rightarrow> (case lib_embedFont lib d of
                      Inr h \<Rightarrow> (embeddedFonts c)(ps \<mapsto> h)
                    | Inl e \<Rightarrow> embeddedFonts c))"
  "embedCalls (fst (getOrEmbed lib ps d c))
     = (case embeddedFonts c ps of Some h \<Rightarrow> embedCalls c | None \<Rightarrow> embedCalls c @ [ps])"
  "doc_pages (comp_doc (fst (getOrEmbed lib ps d c))) = doc_pages (comp_doc c)"
  by (simp_all add: getOrEmbed_def split: option.splits sum.splits)

lemma drawFreeText_core:
  assumes "fontFamily anno = Some (CustomFontRef ps full)" "fontDataMap ps = Some d"
  shows "embeddedFonts (drawFreeText lib fontDataMap page h anno c) = embeddedFonts (fst (getOrEmbed lib ps d c))"
    and "embedCalls (drawFreeText lib fontDataMap page h anno c) = embedCalls (fst (getOrEmbed lib ps d c))"
    and "doc_pages (comp_doc (drawFreeText lib fontDataMap page h anno c)) = doc_pages (comp_doc c)"
  using assms getOrEmbed_core(3) [of lib ps d c]
  by (auto simp: drawFreeText_def isStandardFontRef_def Let_def split: prod.splits option.splits)

lemma drawFreeText_skip:
  assumes "\<not> (\<exists>ps full d. fontFamily anno = Some (CustomFontRef ps full) \<and> fontDataMap ps = Some d)"
  shows "drawFreeText lib fontDataMap page h anno c = c"
  using assms
  by (auto simp: drawFreeText_def isStandardFontRef_def split: option.splits PdfFontRef.splits)

lemma processAnnotation_pages [simp]:
  "doc_pages (comp_doc (processAnnotation lib fontDataMap c anno)) = doc_pages (comp_doc c)"
proof (cases "\<exists>ps full d. fontFamily anno = Some (CustomFontRef ps full) \<and> fontDataMap ps = Some d")
  case True
  then obtain ps full d where "fontFamily anno = Some (CustomFontRef ps full)" "fontDataMap ps = Some d"
    by blast
  then show ?thesis
    by (simp add: processAnnotation_def Let_def drawFreeText_core)
next
  case False
  then show ?thesis
    by (simp add: processAnnotation_def Let_def drawFreeText_skip)
qed






lemma foldl_pages [simp]:
  "doc_pages (comp_doc (foldl (processAnnotation lib fontDataMap) c annos)) = doc_pages (comp_doc c)"
  by (induction annos rule: rev_induct) simp_all







end
